theory Spec2Isabelle
  imports Complex_Main
begin

section \<open>Python strings\<close>

text \<open>
  A Python \<open>str\<close> is modelled as a \<open>string\<close> whose characters are the code points
  below 256. \<open>str.strip()\<close> removes leading and trailing characters for which
  \<open>str.isspace()\<close> holds; below 256 these are 0x09-0x0D, 0x1C-0x20, 0x85 and 0xA0.
\<close>

definition isspace :: "char \<Rightarrow> bool" where
  "isspace c = (let n = (of_char c :: nat) in
     (9 \<le> n \<and> n \<le> 13) \<or> (28 \<le> n \<and> n \<le> 32) \<or> n = 133 \<or> n = 160)"

definition strip :: "string \<Rightarrow> string" where
  "strip s = rev (dropWhile isspace (rev (dropWhile isspace s)))"


text \<open>\<open>s.split('\n')\<close>: every newline separates two fields; the empty text has one
  (empty) field.\<close>

fun split_nl :: "string \<Rightarrow> string list" where
  "split_nl [] = [[]]"
| "split_nl (c # cs) =
     (if c = CHR 0x0A then [] # split_nl cs
      else (case split_nl cs of [] \<Rightarrow> [[c]] | l # ls \<Rightarrow> (c # l) # ls))"

text \<open>\<open>'\n'.join(lines)\<close>, used to write texts down line by line.\<close>

fun join_nl :: "string list \<Rightarrow> string" where
  "join_nl [] = []"
| "join_nl [l] = l"
| "join_nl (l # ls) = l @ CHR 0x0A # join_nl ls"

text \<open>\<open>str(n)\<close> for a non-negative integer, as the f-strings render \<open>len(...)\<close>.\<close>

definition digit_char :: "nat \<Rightarrow> char" where
  "digit_char d = char_of (48 + d)"

function str_nat :: "nat \<Rightarrow> string" where
  "str_nat n = (if n < 10 then [digit_char n] else str_nat (n div 10) @ [digit_char (n mod 10)])"
  by pat_completeness auto
termination
  by (relation "measure id") auto

declare str_nat.simps [simp del]

section \<open>tasks/config\_validation.py\<close>

text \<open>
  The validator reads three things it does not own: the Nornir inventory, the devices
  (through NAPALM) and the baseline files under \<open>config_dir\<close>. They are the fields of
  \<open>world\<close>. \<open>Inl msg\<close> stands for a raised exception with text \<open>msg\<close>.
\<close>

datatype pyval = PyStr string | PyNone

record world =
  inventory_hosts :: "string + string list"
    \<comment> \<open>the host names \<open>InitNornir\<close> loads, in dict order: \<open>Inl\<close> when loading raises\<close>
  filter_groups :: "string \<Rightarrow> string + string list"
    \<comment> \<open>\<open>self.nr.filter(groups__contains=g).inventory.hosts\<close>\<close>
  napalm_get :: "string \<Rightarrow> string + (string \<rightharpoonup> pyval)"
    \<comment> \<open>the \<open>config\<close> getter of one device: \<open>Inl\<close> when the task failed or raised\<close>
  config_files :: "string \<rightharpoonup> string + string"
    \<comment> \<open>files of \<open>config_dir\<close> by name: absent, unreadable (\<open>Inl\<close>) or their text\<close>
  clock_now :: string
    \<comment> \<open>\<open>datetime.now().isoformat()\<close>\<close>

text \<open>The dict a comparison returns. Keys that a branch does not set are \<open>None\<close>;
  \<open>list(set)\<close> has no specified order in Python, so the two line lists are kept as sets.\<close>

record validation_result =
  device :: string
  status :: string
  message :: "string option"
  drift_detected :: bool
  issues :: "string list"
  missing_lines :: "string set option"
  extra_lines :: "string set option"
  timestamp :: "string option"

definition dict_get :: "('k \<rightharpoonup> 'v) \<Rightarrow> 'k \<Rightarrow> 'v \<Rightarrow> 'v" where
  "dict_get d k dflt = (case d k of None \<Rightarrow> dflt | Some v \<Rightarrow> v)"

definition get_device_config :: "world \<Rightarrow> string \<Rightarrow> (string \<rightharpoonup> pyval)" where
  "get_device_config w device_name =
     (case inventory_hosts w of
        Inl e \<Rightarrow> Map.empty
      | Inr hs \<Rightarrow>
          if device_name \<notin> set hs then Map.empty
          else (case napalm_get w device_name of
                  Inl e \<Rightarrow> Map.empty
                | Inr config_data \<Rightarrow>
                    [''running'' \<mapsto> dict_get config_data ''running'' (PyStr ''''),
                     ''startup'' \<mapsto> dict_get config_data ''startup'' (PyStr ''''),
                     ''candidate'' \<mapsto> dict_get config_data ''candidate'' (PyStr '''')]))"

definition config_file_name :: "string \<Rightarrow> string \<Rightarrow> string" where
  "config_file_name device_name config_type = device_name @ ''_'' @ config_type @ ''.txt''"

definition load_source_of_truth_config :: "world \<Rightarrow> string \<Rightarrow> string \<Rightarrow> string option" where
  "load_source_of_truth_config w device_name config_type =
     (case config_files w (config_file_name device_name config_type) of
        None \<Rightarrow> None
      | Some (Inl e) \<Rightarrow> None
      | Some (Inr text) \<Rightarrow> Some text)"

text \<open>Python truth value of an \<open>Optional[str]\<close>: \<open>None\<close> and \<open>""\<close> are false.\<close>

fun truthy :: "string option \<Rightarrow> bool" where
  "truthy None = False"
| "truthy (Some s) = (s \<noteq> [])"

definition no_attribute_strip :: string where
  "no_attribute_strip =
     CHR 0x27 # ''NoneType'' @ CHR 0x27 # '' object has no attribute '' @ CHR 0x27 # ''strip'' @ [CHR 0x27]"

text \<open>The body of the \<open>try\<close> block of \<open>compare_configurations\<close>; \<open>Inl\<close> is the exception
  that \<open>.strip()\<close> raises on a value that is not a string.\<close>

definition compare_body :: "world \<Rightarrow> string \<Rightarrow> string \<Rightarrow> string + validation_result" where
  "compare_body w device_name config_type =
     (let live_configs = get_device_config w device_name;
          live_config = dict_get live_configs config_type (PyStr '''');
          sot_config = load_source_of_truth_config w device_name config_type
      in if \<not> truthy sot_config then
           Inr \<lparr>device = device_name, status = ''error'',
                message = Some ''No source of truth configuration found'',
                drift_detected = False, issues = [],
                missing_lines = None, extra_lines = None, timestamp = None\<rparr>
         else (case live_config of
                 PyNone \<Rightarrow> Inl no_attribute_strip
               | PyStr live \<Rightarrow>
                   (let live_lines = set (split_nl (strip live));
                        sot_lines = set (split_nl (strip (case sot_config of Some sot \<Rightarrow> sot | None \<Rightarrow> [])));
                        missing_in_live = sot_lines - live_lines;
                        extra_in_live = live_lines - sot_lines;
                        drift = (card missing_in_live > 0 \<or> card extra_in_live > 0);
                        issues1 = (if missing_in_live \<noteq> {}
                                   then [''Missing '' @ str_nat (card missing_in_live)
                                           @ '' lines from source of truth'']
                                   else []);
                        issues2 = (if extra_in_live \<noteq> {}
                                   then issues1 @ [''Extra '' @ str_nat (card extra_in_live)
                                           @ '' lines not in source of truth'']
                                   else issues1)
                    in Inr \<lparr>device = device_name, status = ''success'',
                            message = None, drift_detected = drift, issues = issues2,
                            missing_lines = Some missing_in_live,
                            extra_lines = Some extra_in_live,
                            timestamp = Some (clock_now w)\<rparr>)))"

definition compare_configurations :: "world \<Rightarrow> string \<Rightarrow> string \<Rightarrow> validation_result" where
  "compare_configurations w device_name config_type =
     (case compare_body w device_name config_type of
        Inr r \<Rightarrow> r
      | Inl e \<Rightarrow> \<lparr>device = device_name, status = ''error'', message = Some e,
                   drift_detected = False, issues = [''Comparison error: '' @ e],
                   missing_lines = None, extra_lines = None, timestamp = None\<rparr>)"

text \<open>
  \<open>validate_configurations\<close>. The device set is every host for the selector \<open>"all"\<close>
  and the library's group filter otherwise; the two nested \<open>for\<close> loops append one
  comparison per device and config type. \<open>_save_validation_results\<close> writes the list
  to a file and swallows its own exceptions, so it changes neither the returned list nor
  the control flow and is left out. \<open>dry_run\<close> is not read by the source.
\<close>

definition resolve_devices :: "world \<Rightarrow> string \<Rightarrow> string + string list" where
  "resolve_devices w device_group =
     (if device_group = ''all'' then inventory_hosts w else filter_groups w device_group)"

definition config_types :: "string \<Rightarrow> string list" where
  "config_types config_type =
     (if config_type = ''all'' then [''running'', ''startup''] else [config_type])"

fun compare_types ::
  "world \<Rightarrow> string \<Rightarrow> string list \<Rightarrow> validation_result list \<Rightarrow> validation_result list" where
  "compare_types w device_name [] results = results"
| "compare_types w device_name (cfg_type # rest) results =
     compare_types w device_name rest (results @ [compare_configurations w device_name cfg_type])"

fun validate_devices ::
  "world \<Rightarrow> string \<Rightarrow> string list \<Rightarrow> validation_result list \<Rightarrow> validation_result list" where
  "validate_devices w config_type [] results = results"
| "validate_devices w config_type (device_name # rest) results =
     validate_devices w config_type rest
       (compare_types w device_name (config_types config_type) results)"

definition validate_body ::
  "world \<Rightarrow> string \<Rightarrow> string \<Rightarrow> bool \<Rightarrow> string + validation_result list" where
  "validate_body w device_group config_type dry_run =
     (case resolve_devices w device_group of
        Inl e \<Rightarrow> Inl e
      | Inr devices \<Rightarrow> Inr (validate_devices w config_type devices []))"

definition validate_configurations ::
  "world \<Rightarrow> string \<Rightarrow> string \<Rightarrow> bool \<Rightarrow> validation_result list" where
  "validate_configurations w device_group config_type dry_run =
     (case validate_body w device_group config_type dry_run of
        Inr results \<Rightarrow> results
      | Inl e \<Rightarrow> [\<lparr>device = ''unknown'', status = ''error'', message = Some e,
                    drift_detected = False, issues = [''Validation error: '' @ e],
                    missing_lines = None, extra_lines = None, timestamp = None\<rparr>])"

text \<open>
  The constructor. \<open>__init__\<close> calls \<open>_init_nornir\<close>, which loads the inventory files
  and re-raises whatever that raises; there is then no validator. A validator that
  exists therefore holds a loaded inventory.
\<close>

definition init_nornir :: "world \<Rightarrow> string + string list" where
  "init_nornir w = (case inventory_hosts w of Inl e \<Rightarrow> Inl e | Inr nr \<Rightarrow> Inr nr)"

definition config_validator :: "world \<Rightarrow> string + world" where
  "config_validator w =
     (case init_nornir w of
        Inl e \<Rightarrow> Inl e
      | Inr nr \<Rightarrow> Inr (w\<lparr>inventory_hosts := Inr nr\<rparr>))"

section \<open>tasks/inventory\_manager.py\<close>

text \<open>\<open>str.lower()\<close> on code points below 256: A-Z and the accented capitals
  0xC0-0xDE (without the multiplication sign 0xD7) move up by 32.\<close>

definition lower_char :: "char \<Rightarrow> char" where
  "lower_char c = (let n = (of_char c :: nat) in
     if (65 \<le> n \<and> n \<le> 90) \<or> (192 \<le> n \<and> n \<le> 222 \<and> n \<noteq> 215)
     then char_of (n + 32) else c)"

definition lower :: "string \<Rightarrow> string" where
  "lower s = map lower_char s"

text \<open>\<open>key in s\<close> on strings: \<open>key\<close> occurs in \<open>s\<close> as a contiguous block.\<close>

fun is_prefix :: "string \<Rightarrow> string \<Rightarrow> bool" where
  "is_prefix [] s = True"
| "is_prefix (k # ks) [] = False"
| "is_prefix (k # ks) (c # cs) = (k = c \<and> is_prefix ks cs)"

fun contains :: "string \<Rightarrow> string \<Rightarrow> bool" where
  "contains key [] = (key = [])"
| "contains key (c # cs) = (is_prefix key (c # cs) \<or> contains key cs)"

text \<open>The dict literal of \<open>_map_manufacturer_to_driver\<close>; a Python dict iterates in
  insertion order, so it is an association list.\<close>

definition mapping :: "(string \<times> string) list" where
  "mapping =
     [(''cisco'', ''ios''),
      (''juniper'', ''junos''),
      (''arista'', ''eos''),
      (''hp'', ''procurve''),
      (''huawei'', ''vrp''),
      (''fortinet'', ''fortios''),
      (''palo alto'', ''panos''),
      (''mikrotik'', ''ros''),
      (''f5'', ''f5''),
      (''nxos'', ''nxos''),
      (''iosxr'', ''iosxr'')]"

fun first_match :: "(string \<times> string) list \<Rightarrow> string \<Rightarrow> string" where
  "first_match [] manufacturer_lower = ''ios''"
| "first_match ((key, driver) # rest) manufacturer_lower =
     (if contains key manufacturer_lower then driver else first_match rest manufacturer_lower)"

definition map_manufacturer_to_driver :: "string \<Rightarrow> string" where
  "map_manufacturer_to_driver manufacturer = first_match mapping (lower manufacturer)"

section \<open>tasks/report\_generator.py\<close>

text \<open>
  Each encoder writes a file and returns its path. The model returns the file name with
  what is written, as data: a summary of labelled values where the encoder has one, and
  the table of rows. Markup, styles and worksheet coordinates are not modelled. The HTML
  success rate is a Python float; it is kept as the rational number the float rounds.
\<close>

datatype cell = CStr string | CNat nat | CBool bool | CRate rat

datatype report =
    JsonReport "(string \<times> cell) list" "validation_result list"
  | CsvReport "cell list list"
  | XlsxReport "(string \<times> cell) list" "cell list list"
  | HtmlReport "(string \<times> cell) list" "cell list list"

fun summary :: "report \<Rightarrow> (string \<times> cell) list" where
  "summary (JsonReport meta results) = meta"
| "summary (CsvReport rows) = []"
| "summary (XlsxReport summary_data rows) = summary_data"
| "summary (HtmlReport items rows) = items"

text \<open>\<open>"; ".join(issues)\<close> and \<open>result.get("timestamp", "")\<close>.\<close>

fun join_issues :: "string list \<Rightarrow> string" where
  "join_issues [] = []"
| "join_issues [i] = i"
| "join_issues (i # rest) = i @ ''; '' @ join_issues rest"

definition timestamp_or_empty :: "validation_result \<Rightarrow> string" where
  "timestamp_or_empty r = (case timestamp r of None \<Rightarrow> [] | Some t \<Rightarrow> t)"

definition report_file :: "string \<Rightarrow> string \<Rightarrow> string" where
  "report_file ts ext = ''validation_report_'' @ ts @ ''.'' @ ext"

definition generate_json_report ::
  "validation_result list \<Rightarrow> string \<Rightarrow> string \<Rightarrow> string \<times> report" where
  "generate_json_report results ts generated =
     (report_file ts ''json'',
      JsonReport
        [(''generated_at'', CStr generated),
         (''total_devices'', CNat (length results)),
         (''devices_with_drift'', CNat (length (filter drift_detected results))),
         (''devices_with_errors'', CNat (length (filter (\<lambda>r. status r = ''error'') results)))]
        results)"

definition table_header :: "cell list" where
  "table_header = [CStr ''Device'', CStr ''Status'', CStr ''Drift Detected'',
                   CStr ''Issues Count'', CStr ''Issues'', CStr ''Timestamp'']"

definition table_row :: "validation_result \<Rightarrow> cell list" where
  "table_row r = [CStr (device r), CStr (status r), CBool (drift_detected r),
                  CNat (length (issues r)), CStr (join_issues (issues r)),
                  CStr (timestamp_or_empty r)]"

definition generate_csv_report ::
  "validation_result list \<Rightarrow> string \<Rightarrow> string \<times> report" where
  "generate_csv_report results ts =
     (report_file ts ''csv'', CsvReport (table_header # map table_row results))"

definition generate_xlsx_report ::
  "validation_result list \<Rightarrow> string \<Rightarrow> string \<Rightarrow> string \<times> report" where
  "generate_xlsx_report results ts generated =
     (report_file ts ''xlsx'',
      XlsxReport
        [(''Report Generated'', CStr generated),
         (''Total Devices'', CNat (length results)),
         (''Devices with Drift'', CNat (length (filter drift_detected results))),
         (''Devices with Errors'', CNat (length (filter (\<lambda>r. status r = ''error'') results))),
         (''Success Rate'',
            CStr (str_nat (length (filter (\<lambda>r. status r = ''success'') results))
                  @ ''/'' @ str_nat (length results)))]
        (table_header # map table_row results))"

definition html_header :: "cell list" where
  "html_header = [CStr ''Device'', CStr ''Status'', CStr ''Drift Detected'',
                  CStr ''Issues'', CStr ''Timestamp'']"

definition html_row :: "validation_result \<Rightarrow> cell list" where
  "html_row r = [CStr (device r), CStr (status r), CBool (drift_detected r),
                 CStr (join_issues (issues r)), CStr (timestamp_or_empty r)]"

definition generate_html_report ::
  "validation_result list \<Rightarrow> string \<Rightarrow> string \<Rightarrow> string \<times> report" where
  "generate_html_report results ts generated =
     (let total_devices = length results;
          devices_with_drift = length (filter drift_detected results);
          devices_with_errors = length (filter (\<lambda>r. status r = ''error'') results);
          success_rate =
            (if total_devices > 0
             then (rat_of_nat total_devices - rat_of_nat devices_with_errors)
                    / rat_of_nat total_devices * 100
             else 0)
      in (report_file ts ''html'',
          HtmlReport
            [(''Total Devices'', CNat total_devices),
             (''Errors'', CNat devices_with_errors),
             (''Drift Detected'', CNat devices_with_drift),
             (''Success Rate'', CRate success_rate)]
            (html_header # map html_row results)))"

text \<open>\<open>generate_validation_report\<close>: \<open>Inl\<close> is the \<open>ValueError\<close> it re-raises.\<close>

definition generate_validation_report ::
  "validation_result list \<Rightarrow> string \<Rightarrow> string \<Rightarrow> string \<Rightarrow> string + string \<times> report" where
  "generate_validation_report validation_results report_format ts generated =
     (if report_format = ''json'' then Inr (generate_json_report validation_results ts generated)
      else if report_format = ''csv'' then Inr (generate_csv_report validation_results ts)
      else if report_format = ''xlsx'' then Inr (generate_xlsx_report validation_results ts generated)
      else if report_format = ''html'' then Inr (generate_html_report validation_results ts generated)
      else Inl (''Unsupported report format: '' @ report_format))"

text \<open>The aggregate the specification asks of every encoding, in its words: the success
  rate is \<open>(total - errors) / total\<close>, and \<open>0\<close> for an empty list.\<close>

definition spec_success_rate :: "validation_result list \<Rightarrow> rat" where
  "spec_success_rate results =
     (if length results = 0 then 0
      else (rat_of_nat (length results)
              - rat_of_nat (length (filter (\<lambda>r. status r = ''error'') results)))
           / rat_of_nat (length results))"

section \<open>scripts/validate\_configs.py\<close>

text \<open>
  \<open>run_validation\<close> constructs the validator, validates, writes a report unless the
  output format is "json", and returns the results. Its \<open>except\<close> branch returns the
  empty list for anything raised on the way, the constructor included.
\<close>

definition run_validation ::
  "world \<Rightarrow> string \<Rightarrow> string \<Rightarrow> bool \<Rightarrow> string \<Rightarrow> string \<Rightarrow> string
     \<Rightarrow> validation_result list" where
  "run_validation w device_group config_type dry_run output_format ts generated =
     (case config_validator w of
        Inl e \<Rightarrow> []
      | Inr validator \<Rightarrow>
          (let results = validate_configurations validator device_group config_type dry_run
           in if output_format \<noteq> ''json''
              then (case generate_validation_report results output_format ts generated of
                      Inl e \<Rightarrow> []
                    | Inr written \<Rightarrow> results)
              else results))"

section \<open>Example worlds\<close>

text \<open>Three devices: \<open>rtr-01\<close> answers, \<open>fw-01\<close> answers with a running configuration
  that is not a string, and the task on \<open>sw-01\<close> fails.\<close>

definition lab_files :: "string \<rightharpoonup> string + string" where
  "lab_files =
     [''rtr-01_running.txt'' \<mapsto> Inr (join_nl [''line1'', ''line2'', ''line3'']),
      ''rtr-01_startup.txt'' \<mapsto> Inr '''',
      ''sw-01_running.txt'' \<mapsto> Inr ''hostname sw-01'',
      ''fw-01_running.txt'' \<mapsto> Inr ''hostname fw-01'']"

definition lab_napalm :: "string \<Rightarrow> string + (string \<rightharpoonup> pyval)" where
  "lab_napalm d =
     (if d = ''rtr-01''
      then Inr [''running'' \<mapsto> PyStr (join_nl [''line2'', ''line3'', ''line4'']),
                ''startup'' \<mapsto> PyStr ''line1'']
      else if d = ''sw-01'' then Inl ''connection timed out''
      else Inr [''running'' \<mapsto> PyNone])"

definition lab_world :: world where
  "lab_world = \<lparr>inventory_hosts = Inr [''rtr-01'', ''fw-01'', ''sw-01''],
                 filter_groups = (\<lambda>g. Inr []),
                 napalm_get = lab_napalm,
                 config_files = lab_files,
                 clock_now = ''2024-01-01T00:00:00''\<rparr>"

text \<open>The same lab with an inventory that cannot be read.\<close>

definition broken_world :: world where
  "broken_world = lab_world\<lparr>inventory_hosts := Inl ''hosts.yaml: permission denied''\<rparr>"

text \<open>The lab with a group filter that raises for the group "routers".\<close>

definition filter_failing_world :: world where
  "filter_failing_world =
     lab_world\<lparr>filter_groups :=
       (\<lambda>g. if g = ''routers'' then Inl ''filter failed'' else Inr [])\<rparr>"



text \<open>A batch of two results, one successful with drift and one failed.\<close>

definition sample_results :: "validation_result list" where
  "sample_results =
     [\<lparr>device = ''rtr-01'', status = ''success'', message = None, drift_detected = True,
       issues = [''Missing 1 lines from source of truth'',
                 ''Extra 1 lines not in source of truth''],
       missing_lines = Some {''line1''}, extra_lines = Some {''line4''},
       timestamp = Some ''2024-01-01T00:00:00''\<rparr>,
      \<lparr>device = ''fw-01'', status = ''error'',
       message = Some ''No source of truth configuration found'',
       drift_detected = False, issues = [],
       missing_lines = None, extra_lines = None, timestamp = None\<rparr>]"

section \<open>Facts about the string functions\<close>

lemma str_nat_1: "str_nat (Suc 0) = ''1''"
  by code_simp


section \<open>Comparing one device\<close>

lemma dict_get_fetched:
  assumes "inventory_hosts w = Inr hs" and "d \<in> set hs" and "napalm_get w d = Inr cfg"
    and "t \<in> {''running'', ''startup'', ''candidate''}" and "cfg t = Some v"
  shows "dict_get (get_device_config w d) t (PyStr '''') = v"
  using assms by (auto simp: get_device_config_def dict_get_def)

lemma get_device_config_failed:
  assumes "napalm_get w d = Inl e"
  shows "get_device_config w d = Map.empty"
  using assms by (auto simp: get_device_config_def split: sum.splits)

lemma compare_no_baseline:
  assumes "\<not> truthy (load_source_of_truth_config w d t)"
  shows "compare_configurations w d t =
           \<lparr>device = d, status = ''error'',
            message = Some ''No source of truth configuration found'',
            drift_detected = False, issues = [],
            missing_lines = None, extra_lines = None, timestamp = None\<rparr>"
  using assms by (simp add: compare_configurations_def compare_body_def Let_def)

lemma compare_texts:
  assumes "load_source_of_truth_config w d t = Some sot" and "sot \<noteq> []"
    and "dict_get (get_device_config w d) t (PyStr '''') = PyStr live"
  shows "compare_configurations w d t =
     \<lparr>device = d, status = ''success'', message = None,
      drift_detected = (card (set (split_nl (strip sot)) - set (split_nl (strip live))) > 0
                        \<or> card (set (split_nl (strip live)) - set (split_nl (strip sot))) > 0),
      issues = (if set (split_nl (strip sot)) - set (split_nl (strip live)) \<noteq> {}
                then [''Missing '' @ str_nat (card (set (split_nl (strip sot)) - set (split_nl (strip live))))
                        @ '' lines from source of truth''] else [])
             @ (if set (split_nl (strip live)) - set (split_nl (strip sot)) \<noteq> {}
                then [''Extra '' @ str_nat (card (set (split_nl (strip live)) - set (split_nl (strip sot))))
                        @ '' lines not in source of truth''] else []),
      missing_lines = Some (set (split_nl (strip sot)) - set (split_nl (strip live))),
      extra_lines = Some (set (split_nl (strip live)) - set (split_nl (strip sot))),
      timestamp = Some (clock_now w)\<rparr>"
  using assms by (simp add: compare_configurations_def compare_body_def Let_def)

text \<open>
  C1, as the code has it. A failed fetch makes \<open>get_device_config\<close> return the empty
  dict; the error text is logged and not returned. \<open>compare_configurations\<close> then reads
  the live text as the empty string, so its result is the one it gives for a device that
  answered with no text at all, and does not depend on the error. When the baseline is
  absent or empty that result has status "error", \<open>drift_detected\<close> false, the message
  "No source of truth configuration found" and no issues.
\<close>

theorem fetch_failure_compares_empty_text:
  assumes "napalm_get w d = Inl e"
  shows "get_device_config w d = Map.empty
    \<and> dict_get (get_device_config w d) t (PyStr []) = PyStr []
    \<and> compare_configurations w d t =
        compare_configurations (w\<lparr>napalm_get := (napalm_get w)(d := Inr Map.empty)\<rparr>) d t
    \<and> (\<not> truthy (load_source_of_truth_config w d t) \<longrightarrow>
        compare_configurations w d t =
          \<lparr>device = d, status = ''error'',
           message = Some ''No source of truth configuration found'',
           drift_detected = False, issues = [],
           missing_lines = None, extra_lines = None, timestamp = None\<rparr>)"
proof -
  let ?w' = "w\<lparr>napalm_get := (napalm_get w)(d := Inr Map.empty)\<rparr>"
  have g: "get_device_config w d = Map.empty"
    using assms by (rule get_device_config_failed)
  then have l: "dict_get (get_device_config w d) t (PyStr []) = PyStr []"
    by (simp add: dict_get_def)
  have l': "dict_get (get_device_config ?w' d) t (PyStr []) = PyStr []"
    by (auto simp: get_device_config_def dict_get_def split: sum.splits)
  have s: "load_source_of_truth_config ?w' d t = load_source_of_truth_config w d t"
    by (simp add: load_source_of_truth_config_def)
  have same: "compare_configurations w d t = compare_configurations ?w' d t"
    by (simp add: compare_configurations_def compare_body_def Let_def l l' s)
  have none: "\<not> truthy (load_source_of_truth_config w d t) \<longrightarrow>
        compare_configurations w d t =
          \<lparr>device = d, status = ''error'',
           message = Some ''No source of truth configuration found'',
           drift_detected = False, issues = [],
           missing_lines = None, extra_lines = None, timestamp = None\<rparr>"
    by (simp add: compare_no_baseline)
  from g l same none show ?thesis by blast
qed

theorem fetch_failure_compares_empty_text_witness:
  "napalm_get lab_world ''sw-01'' = Inl ''connection timed out''
   \<and> load_source_of_truth_config lab_world ''sw-01'' ''startup'' = None
   \<and> get_device_config lab_world ''sw-01'' = Map.empty
   \<and> compare_configurations lab_world ''sw-01'' ''startup'' =
        \<lparr>device = ''sw-01'', status = ''error'',
         message = Some ''No source of truth configuration found'',
         drift_detected = False, issues = [],
         missing_lines = None, extra_lines = None, timestamp = None\<rparr>"
proof -
  have h: "napalm_get lab_world ''sw-01'' = Inl ''connection timed out''"
    by (simp add: lab_world_def lab_napalm_def)
  have t: "load_source_of_truth_config lab_world ''sw-01'' ''startup'' = None"
    by (simp add: load_source_of_truth_config_def lab_world_def lab_files_def config_file_name_def)
  note th = fetch_failure_compares_empty_text [OF h, of "''startup''"]
  from th have g: "get_device_config lab_world ''sw-01'' = Map.empty"
    by (rule conjunct1)
  from th [THEN conjunct2, THEN conjunct2, THEN conjunct2] t
  have c: "compare_configurations lab_world ''sw-01'' ''startup'' =
        \<lparr>device = ''sw-01'', status = ''error'',
         message = Some ''No source of truth configuration found'',
         drift_detected = False, issues = [],
         missing_lines = None, extra_lines = None, timestamp = None\<rparr>"
    by simp
  from h t g c show ?thesis by (simp only: simp_thms)
qed

text \<open>
  C1 as the specification states it fails: the task on \<open>sw-01\<close> fails with "connection
  timed out", a baseline is saved, and the result has status "success", reports drift and
  does not mention the error.
\<close>

theorem fetch_failure_counterexample:
  "napalm_get lab_world ''sw-01'' = Inl ''connection timed out''
   \<and> status (compare_configurations lab_world ''sw-01'' ''running'') = ''success''
   \<and> drift_detected (compare_configurations lab_world ''sw-01'' ''running'') = True
   \<and> issues (compare_configurations lab_world ''sw-01'' ''running'') =
       [''Missing 1 lines from source of truth'', ''Extra 1 lines not in source of truth'']"
proof -
  have "napalm_get lab_world ''sw-01'' = Inl ''connection timed out''"
    by (simp add: lab_world_def lab_napalm_def)
  moreover have "status (compare_configurations lab_world ''sw-01'' ''running'') = ''success''"
    by code_simp
  moreover have "drift_detected (compare_configurations lab_world ''sw-01'' ''running'') = True"
    by code_simp
  moreover have "issues (compare_configurations lab_world ''sw-01'' ''running'') =
       [''Missing 1 lines from source of truth'', ''Extra 1 lines not in source of truth'']"
    by code_simp
  ultimately show ?thesis by blast
qed

text \<open>
  C2, as the code has it. With no baseline file for the device and config type,
  \<open>compare_configurations\<close> returns status "error", \<open>drift_detected\<close> false and the text
  "No source of truth configuration found" under \<open>message\<close>; the issues list is empty.
\<close>

theorem no_baseline_result:
  assumes "config_files w (config_file_name d t) = None"
  shows "load_source_of_truth_config w d t = None
    \<and> compare_configurations w d t =
        \<lparr>device = d, status = ''error'',
         message = Some ''No source of truth configuration found'',
         drift_detected = False, issues = [],
         missing_lines = None, extra_lines = None, timestamp = None\<rparr>"
proof -
  have l: "load_source_of_truth_config w d t = None"
    using assms by (simp add: load_source_of_truth_config_def)
  then show ?thesis by (simp add: compare_no_baseline)
qed

theorem no_baseline_result_witness:
  "config_files lab_world (config_file_name ''rtr-01'' ''candidate'') = None
   \<and> compare_configurations lab_world ''rtr-01'' ''candidate'' =
        \<lparr>device = ''rtr-01'', status = ''error'',
         message = Some ''No source of truth configuration found'',
         drift_detected = False, issues = [],
         missing_lines = None, extra_lines = None, timestamp = None\<rparr>"
proof -
  have h: "config_files lab_world (config_file_name ''rtr-01'' ''candidate'') = None"
    by (simp add: lab_world_def lab_files_def config_file_name_def)
  from no_baseline_result [OF h] h show ?thesis by simp
qed

text \<open>
  C2 as the specification states it fails: \<open>rtr-01\<close> has no candidate baseline, and the
  issues list of the result has no entry at all.
\<close>

theorem no_baseline_counterexample:
  "load_source_of_truth_config lab_world ''rtr-01'' ''candidate'' = None
   \<and> issues (compare_configurations lab_world ''rtr-01'' ''candidate'') = []
   \<and> length (issues (compare_configurations lab_world ''rtr-01'' ''candidate'')) \<noteq> 1"
  by code_simp

text \<open>
  C10. A baseline file that exists and is empty is loaded as the empty text, not as
  absent, and \<open>compare_configurations\<close> answers as if there were no baseline: status
  "error" with the message "No source of truth configuration found".
\<close>

theorem empty_baseline_is_absent:
  assumes "config_files w (config_file_name d t) = Some (Inr '''')"
  shows "load_source_of_truth_config w d t = Some ''''
    \<and> compare_configurations w d t =
        \<lparr>device = d, status = ''error'',
         message = Some ''No source of truth configuration found'',
         drift_detected = False, issues = [],
         missing_lines = None, extra_lines = None, timestamp = None\<rparr>"
proof -
  have l: "load_source_of_truth_config w d t = Some ''''"
    using assms by (simp add: load_source_of_truth_config_def)
  then have "\<not> truthy (load_source_of_truth_config w d t)" by simp
  with l show ?thesis by (simp add: compare_no_baseline)
qed

theorem empty_baseline_is_absent_witness:
  "config_files lab_world (config_file_name ''rtr-01'' ''startup'') = Some (Inr '''')
   \<and> load_source_of_truth_config lab_world ''rtr-01'' ''startup'' = Some ''''
   \<and> status (compare_configurations lab_world ''rtr-01'' ''startup'') = ''error''
   \<and> message (compare_configurations lab_world ''rtr-01'' ''startup'') =
       Some ''No source of truth configuration found''"
proof -
  have h: "config_files lab_world (config_file_name ''rtr-01'' ''startup'') = Some (Inr '''')"
    by (simp add: lab_world_def lab_files_def config_file_name_def)
  from empty_baseline_is_absent [OF h] h show ?thesis by simp
qed

text \<open>
  C5. With the baseline "line1\<newline>line2\<newline>line3" saved and the device
  answering "line2\<newline>line3\<newline>line4", the comparison succeeds, detects drift, reports
  \<open>line1\<close> as missing and \<open>line4\<close> as extra, and lists the two summary strings.
\<close>

theorem concrete_scenario:
  assumes "inventory_hosts w = Inr hs" and "d \<in> set hs" and "napalm_get w d = Inr cfg"
    and "t \<in> {''running'', ''startup'', ''candidate''}"
    and "cfg t = Some (PyStr (''line2'' @ CHR 0x0A # ''line3'' @ CHR 0x0A # ''line4''))"
    and "config_files w (config_file_name d t) =
           Some (Inr (''line1'' @ CHR 0x0A # ''line2'' @ CHR 0x0A # ''line3''))"
  shows "compare_configurations w d t =
     \<lparr>device = d, status = ''success'', message = None, drift_detected = True,
      issues = [''Missing 1 lines from source of truth'',
                ''Extra 1 lines not in source of truth''],
      missing_lines = Some {''line1''}, extra_lines = Some {''line4''},
      timestamp = Some (clock_now w)\<rparr>"
proof -
  let ?sot = "''line1'' @ CHR 0x0A # ''line2'' @ CHR 0x0A # ''line3''"
  let ?live = "''line2'' @ CHR 0x0A # ''line3'' @ CHR 0x0A # ''line4''"
  have l: "load_source_of_truth_config w d t = Some ?sot"
    using assms(6) by (simp add: load_source_of_truth_config_def)
  have g: "dict_get (get_device_config w d) t (PyStr '''') = PyStr ?live"
    using assms(1-5) by (rule dict_get_fetched)
  have s: "split_nl (strip ?sot) = [''line1'', ''line2'', ''line3'']"
    by (simp add: strip_def isspace_def)
  have v: "split_nl (strip ?live) = [''line2'', ''line3'', ''line4'']"
    by (simp add: strip_def isspace_def)
  have m: "set [''line1'', ''line2'', ''line3''] - set [''line2'', ''line3'', ''line4''] = {''line1''}"
    by auto
  have x: "set [''line2'', ''line3'', ''line4''] - set [''line1'', ''line2'', ''line3''] = {''line4''}"
    by auto
  have "?sot \<noteq> []" by simp
  from compare_texts [OF l this g] show ?thesis
    unfolding s v m x by (simp add: str_nat_1)
qed

theorem concrete_scenario_witness:
  "compare_configurations lab_world ''rtr-01'' ''running'' =
     \<lparr>device = ''rtr-01'', status = ''success'', message = None, drift_detected = True,
      issues = [''Missing 1 lines from source of truth'',
                ''Extra 1 lines not in source of truth''],
      missing_lines = Some {''line1''}, extra_lines = Some {''line4''},
      timestamp = Some ''2024-01-01T00:00:00''\<rparr>"
proof -
  have "compare_configurations lab_world ''rtr-01'' ''running'' =
     \<lparr>device = ''rtr-01'', status = ''success'', message = None, drift_detected = True,
      issues = [''Missing 1 lines from source of truth'',
                ''Extra 1 lines not in source of truth''],
      missing_lines = Some {''line1''}, extra_lines = Some {''line4''},
      timestamp = Some (clock_now lab_world)\<rparr>"
    by (rule concrete_scenario [where hs = "[''rtr-01'', ''fw-01'', ''sw-01'']"
          and cfg = "[''running'' \<mapsto> PyStr (join_nl [''line2'', ''line3'', ''line4'']),
                      ''startup'' \<mapsto> PyStr ''line1'']"])
       (simp_all add: lab_world_def lab_napalm_def lab_files_def config_file_name_def)
  then show ?thesis by (simp add: lab_world_def)
qed




section \<open>Validating a group of devices\<close>

lemma compare_types_append:
  "compare_types w d ts acc = acc @ map (compare_configurations w d) ts"
  by (induction ts arbitrary: acc) simp_all

lemma validate_devices_append:
  "validate_devices w ct ds acc =
     acc @ concat (map (\<lambda>d. map (compare_configurations w d) (config_types ct)) ds)"
  by (induction ds arbitrary: acc) (simp_all add: compare_types_append)

lemma validate_resolved:
  assumes "resolve_devices w g = Inr ds"
  shows "validate_configurations w g ct dry =
           concat (map (\<lambda>d. map (compare_configurations w d) (config_types ct)) ds)"
  using assms
  by (simp add: validate_configurations_def validate_body_def validate_devices_append)

lemma length_concat_const:
  "length (concat (map (\<lambda>d. map (f d) ts) ds)) = length ds * length ts"
  by (induction ds) simp_all

lemma compare_status:
  "status (compare_configurations w d t) =
     (if \<not> truthy (load_source_of_truth_config w d t)
         \<or> dict_get (get_device_config w d) t (PyStr []) = PyNone
      then ''error'' else ''success'')"
  by (simp add: compare_configurations_def compare_body_def Let_def split: pyval.splits)

lemma compare_device: "device (compare_configurations w d t) = d"
  by (simp add: compare_configurations_def compare_body_def Let_def split: pyval.splits)

lemma compare_not_text:
  assumes "truthy (load_source_of_truth_config w d t)"
    and "dict_get (get_device_config w d) t (PyStr []) = PyNone"
  shows "compare_configurations w d t =
           \<lparr>device = d, status = ''error'', message = Some no_attribute_strip,
            drift_detected = False, issues = [''Comparison error: '' @ no_attribute_strip],
            missing_lines = None, extra_lines = None, timestamp = None\<rparr>"
  using assms by (simp add: compare_configurations_def compare_body_def Let_def)

text \<open>
  C6, as the code has it. Whatever happens while one device \<open>d\<close> is compared, the loop
  goes on: the batch is the results of the devices before \<open>d\<close>, then one result of \<open>d\<close>
  per config type, then the results of the devices after it, each under its own device
  name. A result has status "error" exactly when the baseline is absent or empty or the
  live value is not text. The second is the exception of the comparison, caught into
  that device's result. A failed gateway fetch raises nothing: its result has status
  "error" only when the baseline is absent or empty, and status "success" otherwise.
\<close>

theorem device_outcome_does_not_halt_batch:
  assumes "resolve_devices w g = Inr (before @ d # after)"
  shows "validate_configurations w g ct dry =
           concat (map (\<lambda>x. map (compare_configurations w x) (config_types ct)) before)
           @ map (compare_configurations w d) (config_types ct)
           @ concat (map (\<lambda>x. map (compare_configurations w x) (config_types ct)) after)
    \<and> length (validate_configurations w g ct dry) =
        (length before + 1 + length after) * length (config_types ct)
    \<and> (\<forall>t. device (compare_configurations w d t) = d)
    \<and> (\<forall>t. status (compare_configurations w d t) = ''error'' \<longleftrightarrow>
          \<not> truthy (load_source_of_truth_config w d t)
          \<or> dict_get (get_device_config w d) t (PyStr []) = PyNone)
    \<and> (\<forall>t hs cfg.
          inventory_hosts w = Inr hs \<and> d \<in> set hs \<and> napalm_get w d = Inr cfg
          \<and> t \<in> {''running'', ''startup'', ''candidate''} \<and> cfg t = Some PyNone
          \<and> truthy (load_source_of_truth_config w d t) \<longrightarrow>
          compare_configurations w d t =
            \<lparr>device = d, status = ''error'', message = Some no_attribute_strip,
             drift_detected = False, issues = [''Comparison error: '' @ no_attribute_strip],
             missing_lines = None, extra_lines = None, timestamp = None\<rparr>)
    \<and> (\<forall>t e. napalm_get w d = Inl e \<longrightarrow>
          status (compare_configurations w d t) =
            (if truthy (load_source_of_truth_config w d t) then ''success'' else ''error''))"
proof -
  have v: "validate_configurations w g ct dry =
      concat (map (\<lambda>x. map (compare_configurations w x) (config_types ct)) (before @ d # after))"
    using assms by (rule validate_resolved)
  have n: "length (validate_configurations w g ct dry) =
      (length before + 1 + length after) * length (config_types ct)"
    unfolding v length_concat_const by simp
  have dv: "\<forall>t. device (compare_configurations w d t) = d"
    by (simp add: compare_device)
  have st: "\<forall>t. status (compare_configurations w d t) = ''error'' \<longleftrightarrow>
          \<not> truthy (load_source_of_truth_config w d t)
          \<or> dict_get (get_device_config w d) t (PyStr []) = PyNone"
    by (simp add: compare_status)
  have ex: "\<forall>t hs cfg.
          inventory_hosts w = Inr hs \<and> d \<in> set hs \<and> napalm_get w d = Inr cfg
          \<and> t \<in> {''running'', ''startup'', ''candidate''} \<and> cfg t = Some PyNone
          \<and> truthy (load_source_of_truth_config w d t) \<longrightarrow>
          compare_configurations w d t =
            \<lparr>device = d, status = ''error'', message = Some no_attribute_strip,
             drift_detected = False, issues = [''Comparison error: '' @ no_attribute_strip],
             missing_lines = None, extra_lines = None, timestamp = None\<rparr>"
  proof (intro allI impI)
    fix t hs cfg
    assume a: "inventory_hosts w = Inr hs \<and> d \<in> set hs \<and> napalm_get w d = Inr cfg
          \<and> t \<in> {''running'', ''startup'', ''candidate''} \<and> cfg t = Some PyNone
          \<and> truthy (load_source_of_truth_config w d t)"
    then have "dict_get (get_device_config w d) t (PyStr []) = PyNone"
      by (intro dict_get_fetched [of w hs d cfg t PyNone]) simp_all
    with a show "compare_configurations w d t =
            \<lparr>device = d, status = ''error'', message = Some no_attribute_strip,
             drift_detected = False, issues = [''Comparison error: '' @ no_attribute_strip],
             missing_lines = None, extra_lines = None, timestamp = None\<rparr>"
      by (simp add: compare_not_text)
  qed
  have fe: "\<forall>t e. napalm_get w d = Inl e \<longrightarrow>
          status (compare_configurations w d t) =
            (if truthy (load_source_of_truth_config w d t) then ''success'' else ''error'')"
  proof (intro allI impI)
    fix t e
    assume "napalm_get w d = Inl e"
    then have "get_device_config w d = Map.empty" by (rule get_device_config_failed)
    then have "dict_get (get_device_config w d) t (PyStr []) = PyStr []"
      by (simp add: dict_get_def)
    then show "status (compare_configurations w d t) =
            (if truthy (load_source_of_truth_config w d t) then ''success'' else ''error'')"
      by (simp add: compare_status)
  qed
  from v n dv st ex fe show ?thesis by simp
qed

theorem device_outcome_does_not_halt_batch_witness:
  "resolve_devices lab_world ''all'' = Inr ([''rtr-01''] @ ''fw-01'' # [''sw-01''])
   \<and> validate_configurations lab_world ''all'' ''running'' True =
       [compare_configurations lab_world ''rtr-01'' ''running'',
        \<lparr>device = ''fw-01'', status = ''error'', message = Some no_attribute_strip,
         drift_detected = False, issues = [''Comparison error: '' @ no_attribute_strip],
         missing_lines = None, extra_lines = None, timestamp = None\<rparr>,
        compare_configurations lab_world ''sw-01'' ''running'']
   \<and> length (validate_configurations lab_world ''all'' ''running'' True) = 3"
proof -
  have h: "resolve_devices lab_world ''all'' = Inr ([''rtr-01''] @ ''fw-01'' # [''sw-01''])"
    by (simp add: resolve_devices_def lab_world_def)
  have i: "inventory_hosts lab_world = Inr [''rtr-01'', ''fw-01'', ''sw-01'']
      \<and> ''fw-01'' \<in> set [''rtr-01'', ''fw-01'', ''sw-01'']
      \<and> napalm_get lab_world ''fw-01'' = Inr [''running'' \<mapsto> PyNone]
      \<and> ''running'' \<in> {''running'', ''startup'', ''candidate''}
      \<and> [''running'' \<mapsto> PyNone] ''running'' = Some PyNone
      \<and> truthy (load_source_of_truth_config lab_world ''fw-01'' ''running'')"
    by (simp add: lab_world_def lab_napalm_def load_source_of_truth_config_def lab_files_def
        config_file_name_def)
  have t: "config_types ''running'' = [''running'']"
    by (simp add: config_types_def)
  note th = device_outcome_does_not_halt_batch [OF h, of "''running''" True]
  from th have v: "validate_configurations lab_world ''all'' ''running'' True =
       [compare_configurations lab_world ''rtr-01'' ''running'',
        compare_configurations lab_world ''fw-01'' ''running'',
        compare_configurations lab_world ''sw-01'' ''running'']"
    by (simp add: t)
  from th i have f: "compare_configurations lab_world ''fw-01'' ''running'' =
        \<lparr>device = ''fw-01'', status = ''error'', message = Some no_attribute_strip,
         drift_detected = False, issues = [''Comparison error: '' @ no_attribute_strip],
         missing_lines = None, extra_lines = None, timestamp = None\<rparr>"
    by blast
  from th have n: "length (validate_configurations lab_world ''all'' ''running'' True) = 3"
    by (simp add: t)
  from h v f n show ?thesis by (simp only: simp_thms)
qed

text \<open>
  C6 as the specification states it fails: in the lab the fetch from \<open>sw-01\<close> fails.
  The batch still has three results, and the one of \<open>sw-01\<close> has status "success" and
  reports drift; the failure is not captured as an error.
\<close>

theorem device_failure_counterexample:
  "napalm_get lab_world ''sw-01'' = Inl ''connection timed out''
   \<and> length (validate_configurations lab_world ''all'' ''running'' True) = 3
   \<and> device (validate_configurations lab_world ''all'' ''running'' True ! 2) = ''sw-01''
   \<and> status (validate_configurations lab_world ''all'' ''running'' True ! 2) = ''success''
   \<and> drift_detected (validate_configurations lab_world ''all'' ''running'' True ! 2) = True"
proof -
  have "napalm_get lab_world ''sw-01'' = Inl ''connection timed out''"
    by (simp add: lab_world_def lab_napalm_def)
  moreover have "length (validate_configurations lab_world ''all'' ''running'' True) = 3"
    by code_simp
  moreover have "device (validate_configurations lab_world ''all'' ''running'' True ! 2) = ''sw-01''"
    by code_simp
  moreover have "status (validate_configurations lab_world ''all'' ''running'' True ! 2) = ''success''"
    by code_simp
  moreover have "drift_detected (validate_configurations lab_world ''all'' ''running'' True ! 2) = True"
    by code_simp
  ultimately show ?thesis by blast
qed

text \<open>
  C7. For the config type "all" every device contributes exactly two results, the
  comparison of its running configuration followed by that of its startup
  configuration; "candidate" is not among the types compared. For any other config
  type every device contributes exactly one result, the comparison for that type.
\<close>

theorem all_expands_to_running_and_startup:
  assumes "resolve_devices w g = Inr ds"
  shows "validate_configurations w g ''all'' dry =
           concat (map (\<lambda>d. [compare_configurations w d ''running'',
                              compare_configurations w d ''startup'']) ds)
    \<and> length (validate_configurations w g ''all'' dry) = 2 * length ds
    \<and> config_types ''all'' = [''running'', ''startup'']
    \<and> ''candidate'' \<notin> set (config_types ''all'')
    \<and> (ct \<noteq> ''all'' \<longrightarrow>
          config_types ct = [ct]
          \<and> validate_configurations w g ct dry = map (\<lambda>d. compare_configurations w d ct) ds
          \<and> length (validate_configurations w g ct dry) = length ds)"
proof -
  have a: "config_types ''all'' = [''running'', ''startup'']"
    by (simp add: config_types_def)
  have s: "concat (map (\<lambda>d. [f d]) xs) = map f xs" for f :: "'a \<Rightarrow> 'b" and xs
    by (induction xs) simp_all
  have v: "validate_configurations w g ''all'' dry =
           concat (map (\<lambda>d. [compare_configurations w d ''running'',
                              compare_configurations w d ''startup'']) ds)"
    using validate_resolved [OF assms, of "''all''" dry] by (simp add: a)
  have n: "length (validate_configurations w g ''all'' dry) = 2 * length ds"
  proof -
    have "length (concat (map (\<lambda>d. [compare_configurations w d ''running'',
                              compare_configurations w d ''startup'']) ds)) = 2 * length ds"
      by (induction ds) simp_all
    with v show ?thesis by simp
  qed
  have o: "ct \<noteq> ''all'' \<longrightarrow>
          config_types ct = [ct]
          \<and> validate_configurations w g ct dry = map (\<lambda>d. compare_configurations w d ct) ds
          \<and> length (validate_configurations w g ct dry) = length ds"
    using validate_resolved [OF assms, of ct dry] by (simp add: config_types_def s)
  from a v n o show ?thesis by simp
qed

theorem all_expands_to_running_and_startup_witness:
  "resolve_devices lab_world ''all'' = Inr [''rtr-01'', ''fw-01'', ''sw-01'']
   \<and> validate_configurations lab_world ''all'' ''all'' True =
       [compare_configurations lab_world ''rtr-01'' ''running'',
        compare_configurations lab_world ''rtr-01'' ''startup'',
        compare_configurations lab_world ''fw-01'' ''running'',
        compare_configurations lab_world ''fw-01'' ''startup'',
        compare_configurations lab_world ''sw-01'' ''running'',
        compare_configurations lab_world ''sw-01'' ''startup'']
   \<and> validate_configurations lab_world ''all'' ''candidate'' True =
       [compare_configurations lab_world ''rtr-01'' ''candidate'',
        compare_configurations lab_world ''fw-01'' ''candidate'',
        compare_configurations lab_world ''sw-01'' ''candidate'']"
proof -
  have h: "resolve_devices lab_world ''all'' = Inr [''rtr-01'', ''fw-01'', ''sw-01'']"
    by (simp add: resolve_devices_def lab_world_def)
  have c: "''candidate'' \<noteq> ''all''" by simp
  from all_expands_to_running_and_startup [OF h, of True "''candidate''"] h c
  show ?thesis by simp
qed

lemma config_validator_loaded:
  "config_validator w = Inr v \<Longrightarrow> \<exists>hs. inventory_hosts v = Inr hs \<and> filter_groups v = filter_groups w"
  by (auto simp: config_validator_def init_nornir_def split: sum.splits)

text \<open>
  C8, as the code has it. An inventory that cannot be read makes the constructor raise:
  there is no validator, \<open>validate_configurations\<close> is not reached, and \<open>run_validation\<close>
  returns the empty list. On a validator that exists the inventory is loaded, so the
  \<open>try\<close> block of \<open>validate_configurations\<close> fails as a whole exactly when the group
  filter raises, which the selector "all" never uses. It then returns one result: device
  "unknown", status "error", \<open>drift_detected\<close> false, and the text of the exception as
  message and in the issues list.
\<close>

theorem sentinel_when_group_filter_raises:
  "(inventory_hosts w = Inl e \<longrightarrow>
      config_validator w = Inl e
      \<and> run_validation w g ct dry fmt ts gen = [])
   \<and> (\<forall>v. config_validator w = Inr v \<longrightarrow>
        (validate_body v g ct dry = Inl e \<longleftrightarrow> g \<noteq> ''all'' \<and> filter_groups v g = Inl e)
        \<and> (validate_body v g ct dry = Inl e \<longrightarrow>
             validate_configurations v g ct dry =
               [\<lparr>device = ''unknown'', status = ''error'', message = Some e,
                 drift_detected = False, issues = [''Validation error: '' @ e],
                 missing_lines = None, extra_lines = None, timestamp = None\<rparr>]
             \<and> length (validate_configurations v g ct dry) = 1)
        \<and> (\<forall>ds. resolve_devices v g = Inr ds \<longrightarrow>
             validate_configurations v g ct dry =
               concat (map (\<lambda>d. map (compare_configurations v d) (config_types ct)) ds)))"
proof -
  have a: "inventory_hosts w = Inl e \<longrightarrow>
      config_validator w = Inl e \<and> run_validation w g ct dry fmt ts gen = []"
    by (simp add: config_validator_def init_nornir_def run_validation_def)
  have b: "\<forall>v. config_validator w = Inr v \<longrightarrow>
        (validate_body v g ct dry = Inl e \<longleftrightarrow> g \<noteq> ''all'' \<and> filter_groups v g = Inl e)
        \<and> (validate_body v g ct dry = Inl e \<longrightarrow>
             validate_configurations v g ct dry =
               [\<lparr>device = ''unknown'', status = ''error'', message = Some e,
                 drift_detected = False, issues = [''Validation error: '' @ e],
                 missing_lines = None, extra_lines = None, timestamp = None\<rparr>]
             \<and> length (validate_configurations v g ct dry) = 1)
        \<and> (\<forall>ds. resolve_devices v g = Inr ds \<longrightarrow>
             validate_configurations v g ct dry =
               concat (map (\<lambda>d. map (compare_configurations v d) (config_types ct)) ds))"
  proof (intro allI impI)
    fix v
    assume c: "config_validator w = Inr v"
    then obtain hs where hs: "inventory_hosts v = Inr hs"
      using config_validator_loaded by blast
    have 1: "validate_body v g ct dry = Inl e \<longleftrightarrow> g \<noteq> ''all'' \<and> filter_groups v g = Inl e"
    proof (cases "g = ''all''")
      case True
      with hs show ?thesis by (simp add: validate_body_def resolve_devices_def)
    next
      case False
      then show ?thesis
        by (cases "filter_groups v g") (simp_all add: validate_body_def resolve_devices_def)
    qed
    have 2: "validate_body v g ct dry = Inl e \<longrightarrow>
             validate_configurations v g ct dry =
               [\<lparr>device = ''unknown'', status = ''error'', message = Some e,
                 drift_detected = False, issues = [''Validation error: '' @ e],
                 missing_lines = None, extra_lines = None, timestamp = None\<rparr>]
             \<and> length (validate_configurations v g ct dry) = 1"
      by (simp add: validate_configurations_def)
    have 3: "\<forall>ds. resolve_devices v g = Inr ds \<longrightarrow>
             validate_configurations v g ct dry =
               concat (map (\<lambda>d. map (compare_configurations v d) (config_types ct)) ds)"
      by (simp add: validate_resolved)
    from 1 2 3 show "(validate_body v g ct dry = Inl e \<longleftrightarrow> g \<noteq> ''all'' \<and> filter_groups v g = Inl e)
        \<and> (validate_body v g ct dry = Inl e \<longrightarrow>
             validate_configurations v g ct dry =
               [\<lparr>device = ''unknown'', status = ''error'', message = Some e,
                 drift_detected = False, issues = [''Validation error: '' @ e],
                 missing_lines = None, extra_lines = None, timestamp = None\<rparr>]
             \<and> length (validate_configurations v g ct dry) = 1)
        \<and> (\<forall>ds. resolve_devices v g = Inr ds \<longrightarrow>
             validate_configurations v g ct dry =
               concat (map (\<lambda>d. map (compare_configurations v d) (config_types ct)) ds))"
      by blast
  qed
  from a b show ?thesis by blast
qed

theorem sentinel_when_group_filter_raises_witness:
  "config_validator filter_failing_world = Inr filter_failing_world
   \<and> filter_groups filter_failing_world ''routers'' = Inl ''filter failed''
   \<and> validate_configurations filter_failing_world ''routers'' ''all'' True =
        [\<lparr>device = ''unknown'', status = ''error'', message = Some ''filter failed'',
          drift_detected = False, issues = [''Validation error: filter failed''],
          missing_lines = None, extra_lines = None, timestamp = None\<rparr>]
   \<and> config_validator broken_world = Inl ''hosts.yaml: permission denied''
   \<and> run_validation broken_world ''all'' ''running'' True ''json''
        ''20240101_000000'' ''2024-01-01T00:00:00'' = []"
proof -
  have c: "config_validator filter_failing_world = Inr filter_failing_world"
    by (simp add: config_validator_def init_nornir_def filter_failing_world_def lab_world_def)
  have f: "filter_groups filter_failing_world ''routers'' = Inl ''filter failed''"
    by (simp add: filter_failing_world_def)
  have r: "''routers'' \<noteq> ''all''" by simp
  note th = sentinel_when_group_filter_raises
    [of filter_failing_world "''filter failed''" "''routers''" "''all''" True]
  from th c f r have b: "validate_body filter_failing_world ''routers'' ''all'' True
      = Inl ''filter failed''"
    by blast
  from th c b have s: "validate_configurations filter_failing_world ''routers'' ''all'' True =
        [\<lparr>device = ''unknown'', status = ''error'', message = Some ''filter failed'',
          drift_detected = False, issues = [''Validation error: '' @ ''filter failed''],
          missing_lines = None, extra_lines = None, timestamp = None\<rparr>]"
    by blast
  have i: "inventory_hosts broken_world = Inl ''hosts.yaml: permission denied''"
    by (simp add: broken_world_def)
  from sentinel_when_group_filter_raises
    [of broken_world "''hosts.yaml: permission denied''" "''all''" "''running''" True
        "''json''" "''20240101_000000''" "''2024-01-01T00:00:00''"] i
  have k: "config_validator broken_world = Inl ''hosts.yaml: permission denied''
      \<and> run_validation broken_world ''all'' ''running'' True ''json''
           ''20240101_000000'' ''2024-01-01T00:00:00'' = []"
    by blast
  from c f s k show ?thesis by simp
qed

text \<open>
  C8 as the specification states it fails for the case it names: with an inventory that
  cannot be read the constructor raises, and \<open>run_validation\<close> returns the empty list,
  not a batch of one result.
\<close>

theorem unreadable_inventory_counterexample:
  "inventory_hosts broken_world = Inl ''hosts.yaml: permission denied''
   \<and> config_validator broken_world = Inl ''hosts.yaml: permission denied''
   \<and> run_validation broken_world ''all'' ''running'' True ''json''
        ''20240101_000000'' ''2024-01-01T00:00:00'' = []
   \<and> length (run_validation broken_world ''all'' ''running'' True ''json''
        ''20240101_000000'' ''2024-01-01T00:00:00'') \<noteq> 1"
  by (simp add: broken_world_def config_validator_def init_nornir_def run_validation_def)

section \<open>Vendor to driver\<close>

lemma is_prefix_iff: "is_prefix k s \<longleftrightarrow> (\<exists>q. s = k @ q)"
  by (induction k s rule: is_prefix.induct) auto

lemma contains_iff: "contains k s \<longleftrightarrow> (\<exists>p q. s = p @ k @ q)"
proof (induction s)
  case Nil
  then show ?case by simp
next
  case (Cons c cs)
  show ?case
  proof
    assume "contains k (c # cs)"
    then consider "is_prefix k (c # cs)" | "contains k cs" by auto
    then show "\<exists>p q. c # cs = p @ k @ q"
    proof cases
      case 1
      then obtain q where "c # cs = k @ q" by (auto simp: is_prefix_iff)
      then have "c # cs = [] @ k @ q" by simp
      then show ?thesis by blast
    next
      case 2
      with Cons.IH obtain p q where "cs = p @ k @ q" by blast
      then have "c # cs = (c # p) @ k @ q" by simp
      then show ?thesis by blast
    qed
  next
    assume "\<exists>p q. c # cs = p @ k @ q"
    then obtain p q where e: "c # cs = p @ k @ q" by blast
    show "contains k (c # cs)"
    proof (cases p)
      case Nil
      with e have "is_prefix k (c # cs)" by (auto simp: is_prefix_iff)
      then show ?thesis by simp
    next
      case (Cons a p')
      with e have "cs = p' @ k @ q" by simp
      with Cons.IH have "contains k cs" by blast
      then show ?thesis by simp
    qed
  qed
qed

lemma contains_lower: "contains k m \<Longrightarrow> contains (lower k) (lower m)"
proof -
  assume "contains k m"
  then obtain p q where "m = p @ k @ q" by (auto simp: contains_iff)
  then have "lower m = lower p @ lower k @ lower q" by (simp add: lower_def)
  then show ?thesis unfolding contains_iff by blast
qed

lemma first_match_none:
  "\<forall>kd \<in> set tbl. \<not> contains (fst kd) m \<Longrightarrow> first_match tbl m = ''ios''"
  by (induction tbl m rule: first_match.induct) auto

lemma first_match_first:
  "i < length tbl \<Longrightarrow> contains (fst (tbl ! i)) m
   \<Longrightarrow> \<forall>j<i. \<not> contains (fst (tbl ! j)) m
   \<Longrightarrow> first_match tbl m = snd (tbl ! i)"
proof (induction tbl m arbitrary: i rule: first_match.induct)
  case (1 m)
  then show ?case by simp
next
  case (2 key driver rest m)
  show ?case
  proof (cases i)
    case 0
    with "2.prems" show ?thesis by simp
  next
    case (Suc i')
    with "2.prems"(3) have nk: "\<not> contains key m" by fastforce
    from Suc "2.prems" have "i' < length rest" "contains (fst (rest ! i')) m" by simp_all
    moreover from Suc "2.prems"(3) have "\<forall>j<i'. \<not> contains (fst (rest ! j)) m" by fastforce
    ultimately have "first_match rest m = snd (rest ! i')" using "2.IH" nk by blast
    with nk Suc show ?thesis by simp
  qed
qed

text \<open>
  C9. The table is searched in the order it is written, on the lower-cased manufacturer
  string: the driver returned is that of the first key that occurs in it, and "ios" when
  no key occurs in it. So every manufacturer that contains "cisco" maps to "ios", and
  one that contains "juniper" and not "cisco" maps to "junos".
\<close>

theorem first_matching_key_wins:
  "(\<forall>i < length mapping.
      contains (fst (mapping ! i)) (lower m)
      \<and> (\<forall>j<i. \<not> contains (fst (mapping ! j)) (lower m))
      \<longrightarrow> map_manufacturer_to_driver m = snd (mapping ! i))
   \<and> ((\<forall>kd \<in> set mapping. \<not> contains (fst kd) (lower m))
      \<longrightarrow> map_manufacturer_to_driver m = ''ios'')
   \<and> (contains ''cisco'' m \<longrightarrow> map_manufacturer_to_driver m = ''ios'')
   \<and> (contains ''juniper'' (lower m) \<and> \<not> contains ''cisco'' (lower m)
      \<longrightarrow> map_manufacturer_to_driver m = ''junos'')"
proof -
  have a: "\<forall>i < length mapping.
      contains (fst (mapping ! i)) (lower m)
      \<and> (\<forall>j<i. \<not> contains (fst (mapping ! j)) (lower m))
      \<longrightarrow> map_manufacturer_to_driver m = snd (mapping ! i)"
    unfolding map_manufacturer_to_driver_def by (blast intro: first_match_first)
  have b: "(\<forall>kd \<in> set mapping. \<not> contains (fst kd) (lower m))
      \<longrightarrow> map_manufacturer_to_driver m = ''ios''"
    unfolding map_manufacturer_to_driver_def by (blast intro: first_match_none)
  have lc: "lower ''cisco'' = ''cisco''" by code_simp
  have c: "contains ''cisco'' m \<longrightarrow> map_manufacturer_to_driver m = ''ios''"
  proof
    assume "contains ''cisco'' m"
    then have "contains ''cisco'' (lower m)" using contains_lower [of "''cisco''" m] lc by simp
    then show "map_manufacturer_to_driver m = ''ios''"
      by (simp add: map_manufacturer_to_driver_def mapping_def)
  qed
  have d: "contains ''juniper'' (lower m) \<and> \<not> contains ''cisco'' (lower m)
      \<longrightarrow> map_manufacturer_to_driver m = ''junos''"
    by (simp add: map_manufacturer_to_driver_def mapping_def)
  from a b c d show ?thesis by blast
qed

theorem first_matching_key_wins_witness:
  "map_manufacturer_to_driver ''Juniper Networks'' = ''junos''
   \<and> map_manufacturer_to_driver ''cisco systems'' = ''ios''
   \<and> map_manufacturer_to_driver ''Palo Alto HP'' = ''procurve''
   \<and> map_manufacturer_to_driver ''Nokia'' = ''ios''"
proof -
  note th = first_matching_key_wins
  have "lower ''Juniper Networks'' = ''juniper networks''" by code_simp
  then have j: "contains ''juniper'' (lower ''Juniper Networks'')
      \<and> \<not> contains ''cisco'' (lower ''Juniper Networks'')" by simp
  have c: "contains ''cisco'' ''cisco systems''" by simp
  have lp: "lower ''Palo Alto HP'' = ''palo alto hp''" by code_simp
  have p: "(3::nat) < length mapping \<and> contains (fst (mapping ! 3)) (lower ''Palo Alto HP'')
      \<and> (\<forall>j<3. \<not> contains (fst (mapping ! j)) (lower ''Palo Alto HP''))"
    unfolding lp by (simp add: mapping_def less_Suc_eq numeral_3_eq_3)
  have "lower ''Nokia'' = ''nokia''" by code_simp
  then have n: "\<forall>kd \<in> set mapping. \<not> contains (fst kd) (lower ''Nokia'')"
    by (simp add: mapping_def)
  from th [of "''Juniper Networks''"] j
  have 1: "map_manufacturer_to_driver ''Juniper Networks'' = ''junos''" by blast
  from th [of "''cisco systems''"] c
  have 2: "map_manufacturer_to_driver ''cisco systems'' = ''ios''" by blast
  from th [of "''Palo Alto HP''"] p
  have 3: "map_manufacturer_to_driver ''Palo Alto HP'' = snd (mapping ! 3)" by blast
  have "snd (mapping ! 3) = ''procurve''" by (simp add: mapping_def)
  with 3 have 3: "map_manufacturer_to_driver ''Palo Alto HP'' = ''procurve''" by simp
  from th [of "''Nokia''"] n
  have 4: "map_manufacturer_to_driver ''Nokia'' = ''ios''" by blast
  from 1 2 3 4 show ?thesis by blast
qed

section \<open>Reports\<close>

lemma success_count:
  "\<forall>r \<in> set rs. status r = ''success'' \<or> status r = ''error''
   \<Longrightarrow> length (filter (\<lambda>r. status r = ''success'') rs)
         = length rs - length (filter (\<lambda>r. status r = ''error'') rs)"
proof (induction rs)
  case Nil
  then show ?case by simp
next
  case (Cons r rs)
  have le: "length (filter (\<lambda>r. status r = ''error'') rs) \<le> length rs"
    by (rule length_filter_le)
  from Cons show ?case using le by (auto simp: Suc_diff_le)
qed

text \<open>
  C3, as the code has it. The HTML report shows the total, error and drift counts and the
  success rate as a percentage, \<open>(total - errors) / total * 100\<close>, which is \<open>0\<close> for
  an empty list. The JSON report carries the three counts and no success rate. The XLSX
  summary carries the three counts and, as "Success Rate", the text
  "successes/total" (the number of results with status "success", which is
  \<open>total - errors\<close> when every status is "success" or "error"); nothing is divided. The
  CSV report has no summary. No encoding fails on any list, the empty one included.
\<close>

theorem report_aggregates_by_encoding:
  "generate_validation_report rs ''html'' ts gen =
     Inr (report_file ts ''html'',
          HtmlReport
            [(''Total Devices'', CNat (length rs)),
             (''Errors'', CNat (length (filter (\<lambda>r. status r = ''error'') rs))),
             (''Drift Detected'', CNat (length (filter drift_detected rs))),
             (''Success Rate'', CRate (100 * spec_success_rate rs))]
            (html_header # map html_row rs))
   \<and> generate_validation_report rs ''json'' ts gen =
     Inr (report_file ts ''json'',
          JsonReport
            [(''generated_at'', CStr gen),
             (''total_devices'', CNat (length rs)),
             (''devices_with_drift'', CNat (length (filter drift_detected rs))),
             (''devices_with_errors'', CNat (length (filter (\<lambda>r. status r = ''error'') rs)))]
            rs)
   \<and> generate_validation_report rs ''xlsx'' ts gen =
     Inr (report_file ts ''xlsx'',
          XlsxReport
            [(''Report Generated'', CStr gen),
             (''Total Devices'', CNat (length rs)),
             (''Devices with Drift'', CNat (length (filter drift_detected rs))),
             (''Devices with Errors'', CNat (length (filter (\<lambda>r. status r = ''error'') rs))),
             (''Success Rate'',
                CStr (str_nat (length (filter (\<lambda>r. status r = ''success'') rs))
                      @ ''/'' @ str_nat (length rs)))]
            (table_header # map table_row rs))
   \<and> ((\<forall>r \<in> set rs. status r = ''success'' \<or> status r = ''error'') \<longrightarrow>
        length (filter (\<lambda>r. status r = ''success'') rs)
          = length rs - length (filter (\<lambda>r. status r = ''error'') rs))
   \<and> generate_validation_report rs ''csv'' ts gen =
     Inr (report_file ts ''csv'', CsvReport (table_header # map table_row rs))
   \<and> summary (CsvReport (table_header # map table_row rs)) = []
   \<and> spec_success_rate [] = 0"
proof -
  have r: "(if 0 < length rs
            then (rat_of_nat (length rs)
                    - rat_of_nat (length (filter (\<lambda>r. status r = ''error'') rs)))
                 / rat_of_nat (length rs) * 100
            else 0) = 100 * spec_success_rate rs"
    by (simp add: spec_success_rate_def)
  have h: "generate_validation_report rs ''html'' ts gen =
     Inr (report_file ts ''html'',
          HtmlReport
            [(''Total Devices'', CNat (length rs)),
             (''Errors'', CNat (length (filter (\<lambda>r. status r = ''error'') rs))),
             (''Drift Detected'', CNat (length (filter drift_detected rs))),
             (''Success Rate'', CRate (100 * spec_success_rate rs))]
            (html_header # map html_row rs))"
    unfolding generate_validation_report_def generate_html_report_def Let_def r by simp
  have j: "generate_validation_report rs ''json'' ts gen =
     Inr (report_file ts ''json'',
          JsonReport
            [(''generated_at'', CStr gen),
             (''total_devices'', CNat (length rs)),
             (''devices_with_drift'', CNat (length (filter drift_detected rs))),
             (''devices_with_errors'', CNat (length (filter (\<lambda>r. status r = ''error'') rs)))]
            rs)"
    by (simp add: generate_validation_report_def generate_json_report_def)
  have x: "generate_validation_report rs ''xlsx'' ts gen =
     Inr (report_file ts ''xlsx'',
          XlsxReport
            [(''Report Generated'', CStr gen),
             (''Total Devices'', CNat (length rs)),
             (''Devices with Drift'', CNat (length (filter drift_detected rs))),
             (''Devices with Errors'', CNat (length (filter (\<lambda>r. status r = ''error'') rs))),
             (''Success Rate'',
                CStr (str_nat (length (filter (\<lambda>r. status r = ''success'') rs))
                      @ ''/'' @ str_nat (length rs)))]
            (table_header # map table_row rs))"
    by (simp add: generate_validation_report_def generate_xlsx_report_def)
  have s: "(\<forall>r \<in> set rs. status r = ''success'' \<or> status r = ''error'') \<longrightarrow>
        length (filter (\<lambda>r. status r = ''success'') rs)
          = length rs - length (filter (\<lambda>r. status r = ''error'') rs)"
    by (blast intro: success_count)
  have c: "generate_validation_report rs ''csv'' ts gen =
     Inr (report_file ts ''csv'', CsvReport (table_header # map table_row rs))"
    by (simp add: generate_validation_report_def generate_csv_report_def)
  have e: "spec_success_rate [] = 0"
    by (simp add: spec_success_rate_def)
  from h j x s c e show ?thesis by simp
qed

theorem report_aggregates_by_encoding_witness:
  "map status sample_results = [''success'', ''error'']
   \<and> length (filter (\<lambda>r. status r = ''success'') sample_results) = 1
   \<and> generate_validation_report sample_results ''html'' ''20240101_000000''
                 ''2024-01-01 00:00:00'' =
        Inr (''validation_report_20240101_000000.html'',
             HtmlReport
               [(''Total Devices'', CNat 2), (''Errors'', CNat 1),
                (''Drift Detected'', CNat 1), (''Success Rate'', CRate 50)]
               (html_header # map html_row sample_results))
   \<and> summary (snd (generate_html_report [] ''20240101_000000'' ''2024-01-01 00:00:00'')) =
       [(''Total Devices'', CNat 0), (''Errors'', CNat 0),
        (''Drift Detected'', CNat 0), (''Success Rate'', CRate 0)]"
proof -
  let ?ts = "''20240101_000000''" and ?gen = "''2024-01-01 00:00:00''"
  have a: "\<forall>r \<in> set sample_results. status r = ''success'' \<or> status r = ''error''"
    by (simp add: sample_results_def)
  have n: "length sample_results = 2"
    and e: "length (filter (\<lambda>r. status r = ''error'') sample_results) = 1"
    and d: "length (filter drift_detected sample_results) = 1"
    by (simp_all add: sample_results_def)
  have sr: "spec_success_rate sample_results = 1 / 2"
    by (simp add: spec_success_rate_def n e)
  note th = report_aggregates_by_encoding [of sample_results ?ts ?gen]
  from th a have b: "length (filter (\<lambda>r. status r = ''success'') sample_results) = 1"
    by (simp add: n e)
  from th have c: "generate_validation_report sample_results ''html'' ?ts ?gen =
        Inr (''validation_report_20240101_000000.html'',
             HtmlReport
               [(''Total Devices'', CNat 2), (''Errors'', CNat 1),
                (''Drift Detected'', CNat 1), (''Success Rate'', CRate 50)]
               (html_header # map html_row sample_results))"
    by (simp add: n e d sr report_file_def)
  have m: "map status sample_results = [''success'', ''error'']"
    by (simp add: sample_results_def)
  have z: "summary (snd (generate_html_report [] ?ts ?gen)) =
       [(''Total Devices'', CNat 0), (''Errors'', CNat 0),
        (''Drift Detected'', CNat 0), (''Success Rate'', CRate 0)]"
    by (simp add: generate_html_report_def)
  from m b c z show ?thesis by (simp only: simp_thms)
qed

text \<open>
  C3 as the specification states it fails: for the batch \<open>sample_results\<close> (two
  results, one of them an error, so a success rate of one half) the CSV report is the
  header row and one row per result, with no aggregate field, and the metadata of the
  JSON report has the generation time and the three counts, and no success rate.
\<close>

theorem report_aggregates_counterexample:
  "spec_success_rate sample_results = 1 / 2
   \<and> generate_validation_report sample_results ''csv'' ''20240101_000000'' ''2024-01-01T00:00:00'' =
     Inr (''validation_report_20240101_000000.csv'',
          CsvReport [table_header, table_row (sample_results ! 0), table_row (sample_results ! 1)])
   \<and> summary (snd (generate_csv_report sample_results ''20240101_000000'')) = []
   \<and> summary (snd (generate_json_report sample_results ''20240101_000000'' ''2024-01-01T00:00:00''))
       = [(''generated_at'', CStr ''2024-01-01T00:00:00''),
          (''total_devices'', CNat 2),
          (''devices_with_drift'', CNat 1),
          (''devices_with_errors'', CNat 1)]"
  by (simp add: generate_validation_report_def generate_csv_report_def
      generate_json_report_def report_file_def spec_success_rate_def sample_results_def)

end
